theory Spec2Isabelle
  imports Complex_Main "HOL-Library.Word"
begin

section \<open>Lightmap seam stitching: the engine as the stitcher sees it\<close>

text \<open>
  The stitcher (the second document of \<^verbatim>\<open>Source/Urho3D/UI2/RmlRenderer.h\<close>)
  drives engine classes whose sources are elsewhere: textures, vertex buffers,
  geometries, models, scenes, views and the graphics device. The functions of the
  stitcher itself are translated from the source, statement by statement. Each engine
  object is a record of the attributes the stitcher sets, each setter stores its
  arguments, and whatever the graphics device computes (frame begin, texture upload and
  readback, rendering a view) is a field of the \<open>Context\<close> record, so every theorem
  holds for any device.

  \<open>unsigned\<close> is a 32-bit word and \<open>int\<close> a signed reading of one. A \<open>float\<close> is the
  real number it denotes; the stitcher's only float arithmetic is the subtraction
  \<open>1.0f - y\<close>, and rounding is not modelled. A member \<open>name_\<close> of a source class
  is the record field \<open>m_name\<close>.
\<close>

type_synonym uint = "32 word"
type_synonym float = real

datatype error = AssertionFailed

subsection \<open>Texture formats\<close>

text \<open>
  Modelled from the spec: \<open>Graphics::GetFloat32Format()\<close>, \<open>GetRGFloat32Format()\<close> and
  \<open>GetRGBAFloat32Format()\<close> are static functions of the graphics backend, defined
  outside these sources. The spec calls what they return "floating-point texture format
  tokens" and gives no values; the three tokens are parameters.
\<close>

record GraphicsFormats =
  GetFloat32Format :: uint
  GetRGFloat32Format :: uint
  GetRGBAFloat32Format :: uint

text \<open>
  Modelled from the spec: the values the three format functions return are outside
  these sources. The spec says of them that the resolver "returns a distinct,
  deterministic format per count": a backend as the spec describes it is three format
  tokens that are pairwise different, and nothing more is taken from it.
\<close>

typedef GraphicsBackend =
  "{g :: GraphicsFormats.
      distinct [GetFloat32Format g, GetRGFloat32Format g, GetRGBAFloat32Format g]}"
  morphisms backendFormats mkBackend
  by (rule exI [of _ "\<lparr>GetFloat32Format = 0x822E, GetRGFloat32Format = 0x8230,
                        GetRGBAFloat32Format = 0x8814\<rparr>"]) simp

text \<open>
  \<open>GetStitchTextureFormat\<close>. The \<open>default\<close> branch is \<open>assert(0); return 0;\<close>:
  with assertions compiled in the program aborts there, with \<open>NDEBUG\<close> defined the
  assertion expands to nothing and 0 is returned. The first argument says whether
  \<open>NDEBUG\<close> is defined.
\<close>

definition GetStitchTextureFormat :: "bool \<Rightarrow> GraphicsFormats \<Rightarrow> uint \<Rightarrow> error + uint" where
  "GetStitchTextureFormat ndebug gfx numChannels =
     (if numChannels = 1 then Inr (GetFloat32Format gfx)
      else if numChannels = 2 then Inr (GetRGFloat32Format gfx)
      else if numChannels = 4 then Inr (GetRGBAFloat32Format gfx)
      else if ndebug then Inr 0
      else Inl AssertionFailed)"

subsection \<open>Textures and the stitching context\<close>

datatype TextureUsage =
  TEXTURE_STATIC | TEXTURE_DYNAMIC | TEXTURE_RENDERTARGET | TEXTURE_DEPTHSTENCIL

text \<open>
  Modelled from the spec: the engine's \<open>Texture2D\<close> is outside these sources (the spec:
  "create 2D render-target texture of given size/format/mip-count"). A texture is what
  \<open>SetNumLevels(levels)\<close> and \<open>SetSize(width, height, format, usage)\<close> were last given,
  and the texel data the device holds for it, of a type \<open>'d\<close> the device chooses.
\<close>

record 'd Texture2D =
  m_requestedLevels :: uint
  m_width :: int
  m_height :: int
  m_format :: uint
  m_usage :: TextureUsage
  m_data :: 'd

definition Texture2D_SetNumLevels :: "uint \<Rightarrow> 'd Texture2D \<Rightarrow> 'd Texture2D" where
  "Texture2D_SetNumLevels levels t = t\<lparr>m_requestedLevels := levels\<rparr>"

definition Texture2D_SetSize :: "int \<Rightarrow> int \<Rightarrow> uint \<Rightarrow> TextureUsage \<Rightarrow> 'd Texture2D \<Rightarrow> 'd Texture2D" where
  "Texture2D_SetSize width height format usage t =
     t\<lparr>m_width := width, m_height := height, m_format := format, m_usage := usage\<rparr>"

text \<open>
  Textures live in a store and are referred to by address, as the \<open>Texture2D*\<close> of
  the source are. \<open>MakeShared<Texture2D>\<close> takes the next free address; what a newly
  constructed texture holds is whatever the store has there, so nothing is assumed
  about the constructor's defaults.
\<close>

type_synonym Texture2D_ptr = nat

record 'd TextureStore =
  nextFree :: nat
  textures :: "Texture2D_ptr \<Rightarrow> 'd Texture2D"

definition MakeShared_Texture2D :: "'d TextureStore \<Rightarrow> Texture2D_ptr \<times> 'd TextureStore" where
  "MakeShared_Texture2D h = (nextFree h, h\<lparr>nextFree := Suc (nextFree h)\<rparr>)"

definition updateTexture ::
  "Texture2D_ptr \<Rightarrow> ('d Texture2D \<Rightarrow> 'd Texture2D) \<Rightarrow> 'd TextureStore \<Rightarrow> 'd TextureStore" where
  "updateTexture p f h = h\<lparr>textures := (textures h)(p := f (textures h p))\<rparr>"

record 'c LightmapStitchingContext =
  m_context :: 'c
  m_lightmapSize :: uint
  m_pingTexture :: Texture2D_ptr
  m_pongTexture :: Texture2D_ptr

text \<open>
  \<open>InitializeStitchingContext\<close>. The body of the loop over the two textures
  computes \<open>static_cast<int>(lightmapSize)\<close>, the two's complement reading \<open>sint\<close>.
\<close>

definition initTexture :: "uint \<Rightarrow> uint \<Rightarrow> Texture2D_ptr \<Rightarrow> 'd TextureStore \<Rightarrow> 'd TextureStore" where
  "initTexture lightmapSize textureFormat texture h =
     (let size = sint lightmapSize
      in updateTexture texture (Texture2D_SetSize size size textureFormat TEXTURE_RENDERTARGET)
           (updateTexture texture (Texture2D_SetNumLevels 1) h))"

definition InitializeStitchingContext ::
  "bool \<Rightarrow> GraphicsFormats \<Rightarrow> 'd TextureStore \<Rightarrow> 'c \<Rightarrow> uint \<Rightarrow> uint
     \<Rightarrow> error + ('c LightmapStitchingContext \<times> 'd TextureStore)" where
  "InitializeStitchingContext ndebug gfx h context lightmapSize numChannels =
     (case GetStitchTextureFormat ndebug gfx numChannels of
        Inl e \<Rightarrow> Inl e
      | Inr textureFormat \<Rightarrow>
          (let (ping, h1) = MakeShared_Texture2D h;
               (pong, h2) = MakeShared_Texture2D h1;
               result = \<lparr>m_context = context, m_lightmapSize = lightmapSize,
                         m_pingTexture = ping, m_pongTexture = pong\<rparr>
           in Inr (result, fold (initTexture lightmapSize textureFormat) [ping, pong] h2)))"

subsection \<open>The seams model\<close>

text \<open>
  Modelled from the spec: the engine's math library is outside these sources.
  \<open>Vector3::UP\<close> is the unit vector along +Y and \<open>Vector3::DOWN\<close> the one along -Y (the
  spec's camera is "top-down"), \<open>Vector3::ONE\<close> is (1, 1, 1) (the spec's bounding
  volume is "a unit cube").
\<close>

record Vector2 =
  m_x :: float
  m_y :: float

datatype Vector3 = Vector3 float float float

definition Vector3_UP :: Vector3 where "Vector3_UP = Vector3 0 1 0"
definition Vector3_DOWN :: Vector3 where "Vector3_DOWN = Vector3 0 (-1) 0"
definition Vector3_ONE :: Vector3 where "Vector3_ONE = Vector3 1 1 1"
definition Vector3_ZERO :: Vector3 where "Vector3_ZERO = Vector3 0 0 0"

fun Vector3_neg :: "Vector3 \<Rightarrow> Vector3" where
  "Vector3_neg (Vector3 x y z) = Vector3 (- x) (- y) (- z)"

text \<open>
  Modelled from the spec: \<open>Vector2\<close> and \<open>LightmapSeam\<close> are declared outside these
  sources. A seam has two arrays of two points each, \<open>positions_[2]\<close> (own-side
  endpoints) and \<open>otherPositions_[2]\<close> (the matching endpoints on the neighbouring
  chart). An array of two is a pair, read at index 0 or 1.
\<close>

record LightmapSeam =
  m_positions :: "Vector2 \<times> Vector2"
  m_otherPositions :: "Vector2 \<times> Vector2"

definition at2 :: "'a \<times> 'a \<Rightarrow> nat \<Rightarrow> 'a" where
  "at2 a i = (if i = 0 then fst a else snd a)"

datatype VertexElementType = TYPE_VECTOR2 | TYPE_VECTOR3
datatype VertexElementSemantic = SEM_POSITION | SEM_TEXCOORD

type_synonym VertexElement = "VertexElementType \<times> VertexElementSemantic"

definition vertexElements :: "VertexElement list" where
  "vertexElements = [(TYPE_VECTOR3, SEM_POSITION), (TYPE_VECTOR2, SEM_TEXCOORD)]"

fun elementFloats :: "VertexElementType \<Rightarrow> nat" where
  "elementFloats TYPE_VECTOR2 = 2"
| "elementFloats TYPE_VECTOR3 = 3"

definition vertexFloats :: "VertexElement list \<Rightarrow> nat" where
  "vertexFloats es = sum_list (map (elementFloats \<circ> fst) es)"

text \<open>
  Modelled from the spec: the engine's \<open>VertexBuffer\<close> is outside these sources (the
  spec: "build vertex buffers and static geometry with explicit vertex layout and draw
  range"). A vertex buffer is whether it keeps a CPU copy, its vertex count and layout
  as given to \<open>SetSize\<close>, and the floats given to \<open>SetData\<close>. A vertex of the layout
  takes one float per component of its elements. The parameter type of \<open>SetSize\<close> is
  not in these sources; the count is the natural number \<open>seams.size() * 2\<close>, which
  does not overflow \<open>size_t\<close>, a vector of \<open>k\<close> seams of eight floats each being
  held in memory.
\<close>

record VertexBuffer =
  m_shadowed :: bool
  m_vertexCount :: nat
  m_elements :: "VertexElement list"
  m_vertexData :: "float list"

definition MakeShared_VertexBuffer :: VertexBuffer where
  "MakeShared_VertexBuffer =
     \<lparr>m_shadowed = False, m_vertexCount = 0, m_elements = [], m_vertexData = []\<rparr>"

definition VertexBuffer_SetShadowed :: "bool \<Rightarrow> VertexBuffer \<Rightarrow> VertexBuffer" where
  "VertexBuffer_SetShadowed enable vb = vb\<lparr>m_shadowed := enable\<rparr>"

definition VertexBuffer_SetSize :: "nat \<Rightarrow> VertexElement list \<Rightarrow> VertexBuffer \<Rightarrow> VertexBuffer" where
  "VertexBuffer_SetSize vertexCount elements vb =
     vb\<lparr>m_vertexCount := vertexCount, m_elements := elements\<rparr>"

definition VertexBuffer_SetData :: "float list \<Rightarrow> VertexBuffer \<Rightarrow> VertexBuffer" where
  "VertexBuffer_SetData xs vb = vb\<lparr>m_vertexData := xs\<rparr>"

definition push_back :: "'a \<Rightarrow> 'a list \<Rightarrow> 'a list" where
  "push_back v xs = xs @ [v]"

text \<open>The five \<open>push_back\<close> calls of the inner loop's body, for endpoint \<open>i\<close>.\<close>

definition pushEndpoint :: "LightmapSeam \<Rightarrow> nat \<Rightarrow> float list \<Rightarrow> float list" where
  "pushEndpoint seam i vertexData =
     (let v1 = push_back (m_x (at2 (m_positions seam) i)) vertexData;
          v2 = push_back 0 v1;
          v3 = push_back (1 - m_y (at2 (m_positions seam) i)) v2;
          v4 = push_back (m_x (at2 (m_otherPositions seam) i)) v3;
          v5 = push_back (m_y (at2 (m_otherPositions seam) i)) v4
      in v5)"

text \<open>The inner loop, \<open>for (unsigned i = 0; i < 2; ++i)\<close>, and the loop over the seams.\<close>

definition pushSeam :: "LightmapSeam \<Rightarrow> float list \<Rightarrow> float list" where
  "pushSeam seam vertexData = fold (pushEndpoint seam) [0..<2] vertexData"

definition seamsVertexData :: "LightmapSeam list \<Rightarrow> float list" where
  "seamsVertexData seams = fold pushSeam seams []"

definition CreateSeamsVertexBuffer :: "LightmapSeam list \<Rightarrow> VertexBuffer" where
  "CreateSeamsVertexBuffer seams =
     (let vertexData = seamsVertexData seams;
          vertexBuffer = MakeShared_VertexBuffer;
          vertexBuffer = VertexBuffer_SetShadowed True vertexBuffer;
          vertexBuffer = VertexBuffer_SetSize (length seams * 2) vertexElements vertexBuffer;
          vertexBuffer = VertexBuffer_SetData vertexData vertexBuffer
      in vertexBuffer)"

datatype PrimitiveType =
  TRIANGLE_LIST | LINE_LIST | POINT_LIST | TRIANGLE_STRIP | LINE_STRIP | TRIANGLE_FAN

typedecl IndexBuffer

text \<open>
  Modelled from the spec: the engine's \<open>Geometry\<close> is outside these sources. A geometry
  is its vertex buffer slots (null until set), its index buffer (null until set; the
  stitcher never sets one) and the draw range given to
  \<open>SetDrawRange(type, indexStart, indexCount, vertexStart, vertexCount, checkIllegal)\<close>.
\<close>

record Geometry =
  m_geometryVertexBuffers :: "VertexBuffer option list"
  m_indexBuffer :: "IndexBuffer option"
  m_primitiveType :: PrimitiveType
  m_indexStart :: nat
  m_indexCount :: nat
  m_vertexStart :: nat
  m_drawVertexCount :: nat

definition MakeShared_Geometry :: Geometry where
  "MakeShared_Geometry =
     \<lparr>m_geometryVertexBuffers = [], m_indexBuffer = None, m_primitiveType = TRIANGLE_LIST,
      m_indexStart = 0, m_indexCount = 0, m_vertexStart = 0, m_drawVertexCount = 0\<rparr>"

definition resize :: "nat \<Rightarrow> 'a \<Rightarrow> 'a list \<Rightarrow> 'a list" where
  "resize n d xs = take n xs @ replicate (n - length xs) d"

definition Geometry_SetNumVertexBuffers :: "nat \<Rightarrow> Geometry \<Rightarrow> Geometry" where
  "Geometry_SetNumVertexBuffers num g =
     g\<lparr>m_geometryVertexBuffers := resize num None (m_geometryVertexBuffers g)\<rparr>"

definition Geometry_SetVertexBuffer :: "nat \<Rightarrow> VertexBuffer \<Rightarrow> Geometry \<Rightarrow> Geometry" where
  "Geometry_SetVertexBuffer index buffer g =
     (if index < length (m_geometryVertexBuffers g)
      then g\<lparr>m_geometryVertexBuffers := (m_geometryVertexBuffers g)[index := Some buffer]\<rparr>
      else g)"

definition Geometry_SetDrawRange ::
  "PrimitiveType \<Rightarrow> nat \<Rightarrow> nat \<Rightarrow> nat \<Rightarrow> nat \<Rightarrow> bool \<Rightarrow> Geometry \<Rightarrow> Geometry" where
  "Geometry_SetDrawRange type indexStart indexCount vertexStart vertexCount checkIllegal g =
     g\<lparr>m_primitiveType := type, m_indexStart := indexStart, m_indexCount := indexCount,
       m_vertexStart := vertexStart, m_drawVertexCount := vertexCount\<rparr>"

text \<open>
  Modelled from the spec: the engine's \<open>Model\<close> is outside these sources. A model is
  its bounding box, its vertex buffers, and its geometries indexed by geometry and level
  of detail (null until set). \<open>SetNumGeometryLodLevels\<close> and \<open>SetGeometry\<close> leave the
  model as it is when an index is out of range.
\<close>

record Model =
  m_boundingBox :: "Vector3 \<times> Vector3"
  m_modelVertexBuffers :: "VertexBuffer list"
  m_geometries :: "Geometry option list list"

definition MakeShared_Model :: Model where
  "MakeShared_Model =
     \<lparr>m_boundingBox = (Vector3_ZERO, Vector3_ZERO), m_modelVertexBuffers = [], m_geometries = []\<rparr>"

definition Model_SetBoundingBox :: "Vector3 \<times> Vector3 \<Rightarrow> Model \<Rightarrow> Model" where
  "Model_SetBoundingBox box m = m\<lparr>m_boundingBox := box\<rparr>"

definition Model_SetNumGeometries :: "nat \<Rightarrow> Model \<Rightarrow> Model" where
  "Model_SetNumGeometries num m = m\<lparr>m_geometries := resize num [] (m_geometries m)\<rparr>"

definition Model_SetNumGeometryLodLevels :: "nat \<Rightarrow> nat \<Rightarrow> Model \<Rightarrow> Model" where
  "Model_SetNumGeometryLodLevels index num m =
     (if index < length (m_geometries m)
      then m\<lparr>m_geometries := (m_geometries m)[index := resize num None (m_geometries m ! index)]\<rparr>
      else m)"

definition Model_SetVertexBuffers :: "VertexBuffer list \<Rightarrow> nat list \<Rightarrow> nat list \<Rightarrow> Model \<Rightarrow> Model" where
  "Model_SetVertexBuffers buffers morphRangeStarts morphRangeCounts m =
     m\<lparr>m_modelVertexBuffers := buffers\<rparr>"

definition Model_SetGeometry :: "nat \<Rightarrow> nat \<Rightarrow> Geometry \<Rightarrow> Model \<Rightarrow> Model" where
  "Model_SetGeometry index lodLevel geometry m =
     (if index < length (m_geometries m) \<and> lodLevel < length (m_geometries m ! index)
      then m\<lparr>m_geometries :=
              (m_geometries m)[index := (m_geometries m ! index)[lodLevel := Some geometry]]\<rparr>
      else m)"

definition CreateSeamsModel :: "LightmapSeam list \<Rightarrow> Model" where
  "CreateSeamsModel seams =
     (let vertexBuffer = CreateSeamsVertexBuffer seams;
          model = MakeShared_Model;
          model = Model_SetBoundingBox (Vector3_neg Vector3_ONE, Vector3_ONE) model;
          model = Model_SetNumGeometries 1 model;
          model = Model_SetNumGeometryLodLevels 0 1 model;
          model = Model_SetVertexBuffers [vertexBuffer] [] [] model;
          geometry = MakeShared_Geometry;
          geometry = Geometry_SetNumVertexBuffers 1 geometry;
          geometry = Geometry_SetVertexBuffer 0 vertexBuffer geometry;
          geometry = Geometry_SetDrawRange LINE_LIST 0 0 0 (length seams * 2) False geometry;
          model = Model_SetGeometry 0 0 geometry model
      in model)"

subsection \<open>Scenes, views and the graphics device\<close>

text \<open>
  Modelled from the spec: \<open>LightmapStitchingSettings\<close> is declared outside these
  sources; its fields are the options the spec lists, with the types their uses in the
  stitcher give them.
\<close>

record LightmapStitchingSettings =
  m_stitchBackgroundTechniqueName :: string
  m_stitchBackgroundModelName :: string
  m_stitchSeamsTechniqueName :: string
  m_blendFactor :: float
  m_renderPathName :: string
  m_numIterations :: uint

text \<open>
  Modelled from the spec: the engine's scene graph is outside these sources (the spec:
  "create scene, child nodes, attach camera/visual components, position/orient nodes").
  A camera is the four attributes the stitcher's calls are about, and each setter
  stores its argument in the attribute it names. A node is its name, position and
  facing direction; \<open>CreateChild\<close> puts the new node at the origin of its parent,
  facing the engine's forward axis +Z.
\<close>

record Camera =
  m_orthographic :: bool
  m_orthoSize :: float
  m_nearClip :: float
  m_farClip :: float

definition Camera_SetOrthographic :: "bool \<Rightarrow> Camera \<Rightarrow> Camera" where
  "Camera_SetOrthographic enable c = c\<lparr>m_orthographic := enable\<rparr>"

definition Camera_SetOrthoSize :: "float \<Rightarrow> Camera \<Rightarrow> Camera" where
  "Camera_SetOrthoSize orthoSize c = c\<lparr>m_orthoSize := orthoSize\<rparr>"

definition Camera_SetNearClip :: "float \<Rightarrow> Camera \<Rightarrow> Camera" where
  "Camera_SetNearClip nearClip c = c\<lparr>m_nearClip := nearClip\<rparr>"

record Node =
  m_name :: string
  m_position :: Vector3
  m_direction :: Vector3

definition Scene_CreateChild :: "string \<Rightarrow> Node" where
  "Scene_CreateChild name = \<lparr>m_name = name, m_position = Vector3_ZERO, m_direction = Vector3 0 0 1\<rparr>"

definition Node_SetPosition :: "Vector3 \<Rightarrow> Node \<Rightarrow> Node" where
  "Node_SetPosition position n = n\<lparr>m_position := position\<rparr>"

definition Node_SetDirection :: "Vector3 \<Rightarrow> Node \<Rightarrow> Node" where
  "Node_SetDirection direction n = n\<lparr>m_direction := direction\<rparr>"

datatype TextureUnit = TU_DIFFUSE | TU_NORMAL | TU_SPECULAR | TU_EMISSIVE | TU_ENVIRONMENT

datatype Color = Color float float float float

text \<open>
  Modelled from the spec: the engine's \<open>Material\<close> is outside these sources (the spec:
  "resolve named techniques, bind textures and shader parameters to materials"). A
  material is its techniques by index (a technique is the name it is fetched from the
  resource cache by), textures by unit, shader parameters by name, and render order.
  The latest entry for a key is the one in force.
\<close>

record Material =
  m_techniques :: "(nat \<times> string) list"
  m_textures :: "(TextureUnit \<times> Texture2D_ptr) list"
  m_shaderParameters :: "(string \<times> Color) list"
  m_renderOrder :: nat

definition MakeShared_Material :: Material where
  "MakeShared_Material =
     \<lparr>m_techniques = [], m_textures = [], m_shaderParameters = [], m_renderOrder = 128\<rparr>"

definition Material_SetTechnique :: "nat \<Rightarrow> string \<Rightarrow> Material \<Rightarrow> Material" where
  "Material_SetTechnique index tech m = m\<lparr>m_techniques := (index, tech) # m_techniques m\<rparr>"

definition Material_SetTexture :: "TextureUnit \<Rightarrow> Texture2D_ptr \<Rightarrow> Material \<Rightarrow> Material" where
  "Material_SetTexture unit texture m = m\<lparr>m_textures := (unit, texture) # m_textures m\<rparr>"

definition Material_SetShaderParameter :: "string \<Rightarrow> Color \<Rightarrow> Material \<Rightarrow> Material" where
  "Material_SetShaderParameter name v m = m\<lparr>m_shaderParameters := (name, v) # m_shaderParameters m\<rparr>"

definition Material_SetRenderOrder :: "nat \<Rightarrow> Material \<Rightarrow> Material" where
  "Material_SetRenderOrder order m = m\<lparr>m_renderOrder := order\<rparr>"

definition Material_GetTexture :: "TextureUnit \<Rightarrow> Material \<Rightarrow> Texture2D_ptr option" where
  "Material_GetTexture unit m = map_of (m_textures m) unit"

text \<open>
  A \<open>StaticModel\<close> component draws a model with a material. The model is either a
  resource fetched from the cache by name or the \<open>Model*\<close> handed in by the caller.
\<close>

datatype ModelRef = CacheModel string | GivenModel Model

record StaticModel =
  m_model :: "ModelRef option"
  m_material :: "Material option"

definition CreateComponent_StaticModel :: StaticModel where
  "CreateComponent_StaticModel = \<lparr>m_model = None, m_material = None\<rparr>"

definition StaticModel_SetModel :: "ModelRef \<Rightarrow> StaticModel \<Rightarrow> StaticModel" where
  "StaticModel_SetModel model sm = sm\<lparr>m_model := Some model\<rparr>"

definition StaticModel_SetMaterial :: "Material \<Rightarrow> StaticModel \<Rightarrow> StaticModel" where
  "StaticModel_SetMaterial material sm = sm\<lparr>m_material := Some material\<rparr>"

text \<open>The three children of a stitching scene, each with its component.\<close>

record Scene =
  scene_cameraNode :: Node
  scene_camera :: Camera
  scene_backgroundNode :: Node
  scene_background :: StaticModel
  scene_seamsNode :: Node
  scene_seams :: StaticModel

text \<open>
  A viewport and a view are what \<open>CreateStitchingViewAndViewport\<close> gives them. The
  engine services reached through \<open>Context*\<close> are all parameters: the \<open>Camera\<close> that
  \<open>CreateComponent<Camera>()\<close> constructs, what \<open>Graphics::BeginFrame()\<close> answers, what
  \<open>Texture2D::SetData(level, x, y, width, height, data)\<close> makes of a texture, what
  \<open>Texture2D::GetData(level, dest)\<close> leaves in the destination buffer, and what
  \<open>View::Render()\<close> leaves in the view's render target, given every texture. \<open>'px\<close> is
  the element type of the caller's pixel buffer (\<open>Vector4\<close> in the source).
\<close>

record Viewport =
  viewport_camera :: Camera
  viewport_rect :: "int \<times> int \<times> int \<times> int"
  viewport_renderPath :: string
  viewport_scene :: Scene

record View =
  view_renderTarget :: Texture2D_ptr
  view_viewport :: Viewport

record ('px, 'd) Context =
  CreateComponent_Camera :: Camera
  Graphics_BeginFrame :: bool
  Texture2D_SetData :: "uint \<Rightarrow> int \<Rightarrow> int \<Rightarrow> int \<Rightarrow> int \<Rightarrow> 'px list \<Rightarrow> 'd Texture2D \<Rightarrow> 'd Texture2D"
  Texture2D_GetData :: "uint \<Rightarrow> 'd Texture2D \<Rightarrow> 'px list \<Rightarrow> 'px list"
  View_Render :: "View \<Rightarrow> (Texture2D_ptr \<Rightarrow> 'd Texture2D) \<Rightarrow> 'd Texture2D"

text \<open>
  \<open>CreateStitchingScene\<close>. Creating a child node always yields a node, so the three
  \<open>if (Node* ... = scene->CreateChild(...))\<close> bodies all run. The octree component
  holds nothing the stitcher sets and is left out.
\<close>

definition CreateStitchingScene ::
  "('px, 'd) Context \<Rightarrow> LightmapStitchingSettings \<Rightarrow> Texture2D_ptr \<Rightarrow> Model \<Rightarrow> Scene" where
  "CreateStitchingScene context settings inputTexture seamsModel =
     (let cameraNode = Scene_CreateChild ''Camera'';
          cameraNode = Node_SetPosition Vector3_UP cameraNode;
          cameraNode = Node_SetDirection Vector3_DOWN cameraNode;
          camera = CreateComponent_Camera context;
          camera = Camera_SetOrthographic True camera;
          camera = Camera_SetOrthoSize 1.0 camera;
          camera = Camera_SetNearClip 0.1 camera;
          camera = Camera_SetNearClip 10.0 camera;

          backgroundNode = Scene_CreateChild ''Background'';
          material = MakeShared_Material;
          material = Material_SetTechnique 0 (m_stitchBackgroundTechniqueName settings) material;
          material = Material_SetTexture TU_DIFFUSE inputTexture material;
          material = Material_SetRenderOrder 0 material;
          background = CreateComponent_StaticModel;
          background = StaticModel_SetModel (CacheModel (m_stitchBackgroundModelName settings)) background;
          background = StaticModel_SetMaterial material background;

          seamsNode = Scene_CreateChild ''Seams'';
          seamsNode = Node_SetPosition (Vector3 (- 0.5) 0.1 (- 0.5)) seamsNode;
          material = MakeShared_Material;
          material = Material_SetTechnique 0 (m_stitchSeamsTechniqueName settings) material;
          material = Material_SetTexture TU_DIFFUSE inputTexture material;
          material = Material_SetShaderParameter ''MatDiffColor''
                       (Color 1.0 1.0 1.0 (m_blendFactor settings)) material;
          material = Material_SetRenderOrder 1 material;
          seams = CreateComponent_StaticModel;
          seams = StaticModel_SetModel (GivenModel seamsModel) seams;
          seams = StaticModel_SetMaterial material seams
      in \<lparr>scene_cameraNode = cameraNode, scene_camera = camera,
          scene_backgroundNode = backgroundNode, scene_background = background,
          scene_seamsNode = seamsNode, scene_seams = seams\<rparr>)"

text \<open>
  \<open>CreateStitchingViewAndViewport\<close>. A render path is the name it is loaded by; the
  render surface of a texture is the texture.
\<close>

definition CreateStitchingViewAndViewport :: "Scene \<Rightarrow> string \<Rightarrow> Texture2D_ptr \<Rightarrow> View \<times> Viewport" where
  "CreateStitchingViewAndViewport scene renderPath outputTexture =
     (let viewport = \<lparr>viewport_camera = scene_camera scene, viewport_rect = (0, 0, 0, 0),
                       viewport_renderPath = renderPath, viewport_scene = scene\<rparr>;
          view = \<lparr>view_renderTarget = outputTexture, view_viewport = viewport\<rparr>
      in (view, viewport))"

subsection \<open>The stitching driver\<close>

text \<open>
  The driver's effects are on three things: the textures, the caller's pixel buffer
  \<open>imageData\<close>, and the sequence of engine calls it makes, which is recorded in order.
\<close>

datatype Call =
    Call_LoadRenderPath string
  | Call_CreateStitchingScene Scene
  | Call_CreateStitchingViewAndViewport View
  | Call_BeginFrame
  | Call_LogError
  | Call_SetData Texture2D_ptr
  | Call_Render View
  | Call_GetData Texture2D_ptr
  | Call_EndFrame

record ('px, 'd) World =
  world_textures :: "'d TextureStore"
  world_imageData :: "'px list"
  world_calls :: "Call list"

definition called :: "Call \<Rightarrow> ('px, 'd) World \<Rightarrow> ('px, 'd) World" where
  "called c w = w\<lparr>world_calls := world_calls w @ [c]\<rparr>"

text \<open>\<open>texture->SetData(level, x, y, width, height, imageData.data())\<close>\<close>

definition SetData ::
  "('px, 'd) Context \<Rightarrow> Texture2D_ptr \<Rightarrow> uint \<Rightarrow> int \<Rightarrow> int \<Rightarrow> int \<Rightarrow> int
     \<Rightarrow> ('px, 'd) World \<Rightarrow> ('px, 'd) World" where
  "SetData context texture level x y width height w =
     called (Call_SetData texture)
       (w\<lparr>world_textures :=
            updateTexture texture
              (Texture2D_SetData context level x y width height (world_imageData w))
              (world_textures w)\<rparr>)"

text \<open>\<open>texture->GetData(level, imageData.data())\<close>\<close>

definition GetData ::
  "('px, 'd) Context \<Rightarrow> Texture2D_ptr \<Rightarrow> uint \<Rightarrow> ('px, 'd) World \<Rightarrow> ('px, 'd) World" where
  "GetData context texture level w =
     called (Call_GetData texture)
       (w\<lparr>world_imageData :=
            Texture2D_GetData context level (textures (world_textures w) texture)
              (world_imageData w)\<rparr>)"

text \<open>\<open>view->Render()\<close>: the view's render target gets what the device renders.\<close>

definition Render :: "('px, 'd) Context \<Rightarrow> View \<Rightarrow> ('px, 'd) World \<Rightarrow> ('px, 'd) World" where
  "Render context view w =
     called (Call_Render view)
       (w\<lparr>world_textures :=
            updateTexture (view_renderTarget view)
              (\<lambda>_. View_Render context view (textures (world_textures w)))
              (world_textures w)\<rparr>)"

text \<open>The variables of the ping-pong loop, and its body: render, then the two swaps.\<close>

record ('px, 'd) PingPong =
  currentTexture :: Texture2D_ptr
  swapTexture :: Texture2D_ptr
  currentView :: View
  swapView :: View
  world :: "('px, 'd) World"

definition pingPongBody :: "('px, 'd) Context \<Rightarrow> ('px, 'd) PingPong \<Rightarrow> ('px, 'd) PingPong" where
  "pingPongBody context v =
     v\<lparr>world := Render context (currentView v) (world v),
       currentTexture := swapTexture v, swapTexture := currentTexture v,
       currentView := swapView v, swapView := currentView v\<rparr>"

text \<open>
  \<open>for (unsigned i = 0; i < settings.numIterations_; ++i)\<close>, on 32-bit words. The
  settings structure is declared outside these sources; \<open>numIterations_\<close> is taken to
  be \<open>unsigned\<close>, as the counter it is compared with.
\<close>

function pingPongLoop ::
  "('px, 'd) Context \<Rightarrow> uint \<Rightarrow> uint \<Rightarrow> ('px, 'd) PingPong \<Rightarrow> ('px, 'd) PingPong" where
  "pingPongLoop context i n v =
     (if i < n then pingPongLoop context (i + 1) n (pingPongBody context v) else v)"
  by pat_completeness auto
termination
proof (relation "measure (\<lambda>(c, i, n, v). unat n - unat i)")
  show "wf (measure (\<lambda>(c :: ('px, 'd) Context, i :: uint, n :: uint, v :: ('px, 'd) PingPong).
                        unat n - unat i))"
    by simp
next
  fix c :: "('px, 'd) Context" and i n :: uint and v :: "('px, 'd) PingPong"
  assume less: "i < n"
  have below: "unat i < unat n"
    using less by (simp add: word_less_nat_alt)
  moreover have "unat n < 2 ^ 32"
    using unsigned_less [of n] by simp
  ultimately have "unat (i + 1) = Suc (unat i)"
    by (simp add: unat_word_ariths)
  with below
  show "((c, i + 1, n, pingPongBody c v), (c, i, n, v))
          \<in> measure (\<lambda>(c, i, n, v). unat n - unat i)"
    by simp
qed

declare pingPongLoop.simps [simp del]

definition LoadRenderPath :: "string \<Rightarrow> string" where
  "LoadRenderPath name = name"

text \<open>
  \<open>StitchLightmapSeams\<close>. The stitching context carries the engine context; the
  world carries \<open>imageData\<close>.
\<close>

definition StitchLightmapSeams ::
  "('px, 'd) Context LightmapStitchingContext \<Rightarrow> LightmapStitchingSettings \<Rightarrow> Model
     \<Rightarrow> ('px, 'd) World \<Rightarrow> ('px, 'd) World" where
  "StitchLightmapSeams stitchingContext settings seamsModel w =
     (let context = m_context stitchingContext;
          renderPath = LoadRenderPath (m_renderPathName settings);
          w = called (Call_LoadRenderPath (m_renderPathName settings)) w;
          pingScene = CreateStitchingScene context settings (m_pongTexture stitchingContext) seamsModel;
          w = called (Call_CreateStitchingScene pingScene) w;
          pongScene = CreateStitchingScene context settings (m_pingTexture stitchingContext) seamsModel;
          w = called (Call_CreateStitchingScene pongScene) w;
          pingViewViewport = CreateStitchingViewAndViewport pingScene renderPath (m_pingTexture stitchingContext);
          w = called (Call_CreateStitchingViewAndViewport (fst pingViewViewport)) w;
          pongViewViewport = CreateStitchingViewAndViewport pongScene renderPath (m_pongTexture stitchingContext);
          w = called (Call_CreateStitchingViewAndViewport (fst pongViewViewport)) w;
          w = called Call_BeginFrame w
      in if \<not> Graphics_BeginFrame context then called Call_LogError w
         else
           (let size = sint (m_lightmapSize stitchingContext);
                w = SetData context (m_pongTexture stitchingContext) 0 0 0 size size w;
                v = pingPongLoop context 0 (m_numIterations settings)
                      \<lparr>currentTexture = m_pongTexture stitchingContext,
                       swapTexture = m_pingTexture stitchingContext,
                       currentView = fst pingViewViewport,
                       swapView = fst pongViewViewport,
                       world = w\<rparr>;
                w = GetData context (currentTexture v) 0 (world v)
            in called Call_EndFrame w))"

subsection \<open>Reading the record of calls\<close>

text \<open>The texture a call writes, if it writes one, and the one written last.\<close>

fun written :: "Call \<Rightarrow> Texture2D_ptr option" where
  "written (Call_SetData t) = Some t"
| "written (Call_Render view) = Some (view_renderTarget view)"
| "written _ = None"

fun lastWritten :: "Call list \<Rightarrow> Texture2D_ptr option" where
  "lastWritten [] = None"
| "lastWritten (c # cs) =
     (case lastWritten cs of Some t \<Rightarrow> Some t | None \<Rightarrow> written c)"

fun isSetData :: "Call \<Rightarrow> bool" where
  "isSetData (Call_SetData t) = True"
| "isSetData _ = False"

fun isGetData :: "Call \<Rightarrow> bool" where
  "isGetData (Call_GetData t) = True"
| "isGetData _ = False"

fun isRender :: "Call \<Rightarrow> bool" where
  "isRender (Call_Render view) = True"
| "isRender _ = False"

fun isCreate :: "Call \<Rightarrow> bool" where
  "isCreate (Call_CreateStitchingScene scene) = True"
| "isCreate (Call_CreateStitchingViewAndViewport view) = True"
| "isCreate _ = False"

text \<open>The texture a view's scene samples: the diffuse texture of its two materials.\<close>

definition sampledTextures :: "Scene \<Rightarrow> Texture2D_ptr option list" where
  "sampledTextures scene =
     map (\<lambda>sm. case m_material sm of None \<Rightarrow> None | Some m \<Rightarrow> Material_GetTexture TU_DIFFUSE m)
       [scene_background scene, scene_seams scene]"

subsection \<open>Names for what the driver builds and does\<close>

text \<open>
  The local variables \<open>pingScene\<close>, \<open>pongScene\<close>, \<open>pingViewViewport.first\<close> and
  \<open>pongViewViewport.first\<close> of \<open>StitchLightmapSeams\<close>, as functions of its arguments.
\<close>

definition pingScene ::
  "('px, 'd) Context LightmapStitchingContext \<Rightarrow> LightmapStitchingSettings \<Rightarrow> Model \<Rightarrow> Scene" where
  "pingScene sc settings seamsModel =
     CreateStitchingScene (m_context sc) settings (m_pongTexture sc) seamsModel"

definition pongScene ::
  "('px, 'd) Context LightmapStitchingContext \<Rightarrow> LightmapStitchingSettings \<Rightarrow> Model \<Rightarrow> Scene" where
  "pongScene sc settings seamsModel =
     CreateStitchingScene (m_context sc) settings (m_pingTexture sc) seamsModel"

definition pingView ::
  "('px, 'd) Context LightmapStitchingContext \<Rightarrow> LightmapStitchingSettings \<Rightarrow> Model \<Rightarrow> View" where
  "pingView sc settings seamsModel =
     fst (CreateStitchingViewAndViewport (pingScene sc settings seamsModel)
            (LoadRenderPath (m_renderPathName settings)) (m_pingTexture sc))"

definition pongView ::
  "('px, 'd) Context LightmapStitchingContext \<Rightarrow> LightmapStitchingSettings \<Rightarrow> Model \<Rightarrow> View" where
  "pongView sc settings seamsModel =
     fst (CreateStitchingViewAndViewport (pongScene sc settings seamsModel)
            (LoadRenderPath (m_renderPathName settings)) (m_pongTexture sc))"

text \<open>The calls up to and including \<open>BeginFrame\<close>, made on every path.\<close>

definition setupCalls ::
  "('px, 'd) Context LightmapStitchingContext \<Rightarrow> LightmapStitchingSettings \<Rightarrow> Model \<Rightarrow> Call list" where
  "setupCalls sc settings seamsModel =
     [Call_LoadRenderPath (m_renderPathName settings),
      Call_CreateStitchingScene (pingScene sc settings seamsModel),
      Call_CreateStitchingScene (pongScene sc settings seamsModel),
      Call_CreateStitchingViewAndViewport (pingView sc settings seamsModel),
      Call_CreateStitchingViewAndViewport (pongView sc settings seamsModel),
      Call_BeginFrame]"

text \<open>The calls a run added to the record.\<close>

definition callsMade :: "('px, 'd) World \<Rightarrow> ('px, 'd) World \<Rightarrow> Call list" where
  "callsMade w w' = drop (length (world_calls w)) (world_calls w')"

text \<open>
  Pass \<open>k\<close> of the loop (counted from 0) renders the ping view when \<open>k\<close> is even and
  the pong view when it is odd; \<open>renderPasses\<close> is the first \<open>k\<close> passes and
  \<open>renderCalls\<close> the calls they make. After \<open>k\<close> passes \<open>currentTexture\<close> is
  \<open>pingPongTarget\<close>.
\<close>

definition viewAt :: "View \<Rightarrow> View \<Rightarrow> nat \<Rightarrow> View" where
  "viewAt ping pong k = (if even k then ping else pong)"

definition renderPasses ::
  "('px, 'd) Context \<Rightarrow> View \<Rightarrow> View \<Rightarrow> nat \<Rightarrow> ('px, 'd) World \<Rightarrow> ('px, 'd) World" where
  "renderPasses c ping pong k w = fold (\<lambda>j. Render c (viewAt ping pong j)) [0..<k] w"

definition renderCalls :: "View \<Rightarrow> View \<Rightarrow> nat \<Rightarrow> Call list" where
  "renderCalls ping pong k = map (\<lambda>j. Call_Render (viewAt ping pong j)) [0..<k]"

definition pingPongTarget :: "('px, 'd) Context LightmapStitchingContext \<Rightarrow> nat \<Rightarrow> Texture2D_ptr" where
  "pingPongTarget sc k = (if even k then m_pongTexture sc else m_pingTexture sc)"

text \<open>The five floats the specification lists for endpoint \<open>i\<close> of a seam.\<close>

definition endpointFloats_spec :: "LightmapSeam \<Rightarrow> nat \<Rightarrow> float list" where
  "endpointFloats_spec seam i =
     [m_x (at2 (m_positions seam) i), 0, 1 - m_y (at2 (m_positions seam) i),
      m_x (at2 (m_otherPositions seam) i), m_y (at2 (m_otherPositions seam) i)]"

subsection \<open>Example inputs\<close>

text \<open>
  Format tokens as an OpenGL backend has them, an empty texture store, and a device
  whose upload stores the pixels, whose readback returns them, and whose render pass
  writes the texels its scene samples, each increased by one.
\<close>

definition glFormats :: GraphicsFormats where
  "glFormats =
     \<lparr>GetFloat32Format = 0x822E, GetRGFloat32Format = 0x8230, GetRGBAFloat32Format = 0x8814\<rparr>"

definition emptyStore :: "unit TextureStore" where
  "emptyStore =
     \<lparr>nextFree = 0,
      textures = (\<lambda>_. \<lparr>m_requestedLevels = 0, m_width = 0, m_height = 0, m_format = 0,
                         m_usage = TEXTURE_STATIC, m_data = ()\<rparr>)\<rparr>"

definition exampleDevice :: "bool \<Rightarrow> (nat, nat list) Context" where
  "exampleDevice frameBegins =
     \<lparr>CreateComponent_Camera =
        \<lparr>m_orthographic = False, m_orthoSize = 20, m_nearClip = 0.1, m_farClip = 1000\<rparr>,
      Graphics_BeginFrame = frameBegins,
      Texture2D_SetData = (\<lambda>level x y width height pixels t. t\<lparr>m_data := pixels\<rparr>),
      Texture2D_GetData = (\<lambda>level t dest. m_data t),
      View_Render = (\<lambda>view ts. (ts (view_renderTarget view))
         \<lparr>m_data := map Suc
            (case hd (sampledTextures (viewport_scene (view_viewport view))) of
               Some source \<Rightarrow> m_data (ts source) | None \<Rightarrow> [])\<rparr>)\<rparr>"

definition exampleContext :: "bool \<Rightarrow> (nat, nat list) Context LightmapStitchingContext" where
  "exampleContext frameBegins =
     \<lparr>m_context = exampleDevice frameBegins, m_lightmapSize = 2,
      m_pingTexture = 0, m_pongTexture = 1\<rparr>"

definition exampleSettings :: "uint \<Rightarrow> LightmapStitchingSettings" where
  "exampleSettings n =
     \<lparr>m_stitchBackgroundTechniqueName = ''background.xml'',
      m_stitchBackgroundModelName = ''Plane.mdl'',
      m_stitchSeamsTechniqueName = ''seams.xml'', m_blendFactor = 0.5,
      m_renderPathName = ''Forward.xml'', m_numIterations = n\<rparr>"

definition exampleSeam :: LightmapSeam where
  "exampleSeam =
     \<lparr>m_positions = (\<lparr>m_x = 0, m_y = 0\<rparr>, \<lparr>m_x = 1, m_y = 0\<rparr>),
      m_otherPositions = (\<lparr>m_x = 0, m_y = 1\<rparr>, \<lparr>m_x = 1, m_y = 1\<rparr>)\<rparr>"

definition exampleWorld :: "(nat, nat list) World" where
  "exampleWorld =
     \<lparr>world_textures =
        \<lparr>nextFree = 2,
         textures = (\<lambda>_. \<lparr>m_requestedLevels = 1, m_width = 2, m_height = 2, m_format = 0x8814,
                            m_usage = TEXTURE_RENDERTARGET, m_data = []\<rparr>)\<rparr>,
      world_imageData = [10, 20, 30, 40], world_calls = []\<rparr>"

section \<open>Properties\<close>

subsection \<open>Textures of a new stitching context\<close>

lemma initTexture_textures:
  "textures (initTexture lightmapSize textureFormat p h) =
     (textures h)(p := Texture2D_SetSize (sint lightmapSize) (sint lightmapSize) textureFormat
        TEXTURE_RENDERTARGET (Texture2D_SetNumLevels 1 (textures h p)))"
  by (simp add: initTexture_def updateTexture_def Let_def)

lemma InitializeStitchingContext_Inr:
  assumes "GetStitchTextureFormat ndebug gfx numChannels = Inr textureFormat"
  shows "\<exists>c h'. InitializeStitchingContext ndebug gfx h context lightmapSize numChannels = Inr (c, h') \<and>
      m_context c = context \<and> m_lightmapSize c = lightmapSize \<and>
      m_pingTexture c \<noteq> m_pongTexture c \<and>
      list_all (\<lambda>t. m_requestedLevels (textures h' t) = 1 \<and>
                   m_width (textures h' t) = sint lightmapSize \<and>
                   m_height (textures h' t) = sint lightmapSize \<and>
                   m_format (textures h' t) = textureFormat \<and>
                   m_usage (textures h' t) = TEXTURE_RENDERTARGET)
        [m_pingTexture c, m_pongTexture c]"
  using assms
  by (simp add: InitializeStitchingContext_def MakeShared_Texture2D_def initTexture_textures
      Texture2D_SetSize_def Texture2D_SetNumLevels_def)

lemma sint_below_INT_MAX:
  assumes "unat (w :: uint) < 2 ^ 31"
  shows "sint w = int (unat w)"
proof -
  have "unat w < 2147483648"
    using assms by simp
  then have "int (unat w) < 2147483648"
    by linarith
  then have "uint w < 2 ^ 31"
    by simp
  moreover have "- (2 ^ 31) \<le> uint w"
  proof -
    have "- (2 ^ 31) \<le> (0::int)" by simp
    also have "0 \<le> uint w" by simp
    finally show ?thesis .
  qed
  ultimately have "signed_take_bit 31 (uint w) = uint w"
    by (rule signed_take_bit_int_eq_self [rotated])
  then show ?thesis
    by (simp add: sint_uint)
qed

subsection \<open>The vertex data, seam by seam\<close>

lemma pushEndpoint_append:
  "pushEndpoint seam i vertexData = vertexData @ endpointFloats_spec seam i"
  by (simp add: pushEndpoint_def push_back_def Let_def endpointFloats_spec_def)

lemma pushSeam_append:
  "pushSeam seam vertexData
     = vertexData @ endpointFloats_spec seam 0 @ endpointFloats_spec seam 1"
proof -
  have "[0..<2] = [0, Suc 0]"
    by (simp add: upt_rec)
  then show ?thesis
    by (simp add: pushSeam_def pushEndpoint_append)
qed

lemma fold_pushSeam:
  "fold pushSeam seams acc
     = acc @ concat (map (\<lambda>s. endpointFloats_spec s 0 @ endpointFloats_spec s 1) seams)"
  by (induction seams arbitrary: acc) (simp_all add: pushSeam_append)

lemma seamsVertexData_concat:
  "seamsVertexData seams
     = concat (map (\<lambda>s. endpointFloats_spec s 0 @ endpointFloats_spec s 1) seams)"
  by (simp add: seamsVertexData_def fold_pushSeam)

lemma length_endpointFloats_spec: "length (endpointFloats_spec seam i) = 5"
  by (simp add: endpointFloats_spec_def)

lemma length_seamsVertexData: "length (seamsVertexData seams) = 10 * length seams"
  by (induction seams) (simp_all add: seamsVertexData_concat length_endpointFloats_spec)

lemma drop_seamsVertexData:
  "j \<le> length seams \<Longrightarrow> drop (10 * j) (seamsVertexData seams) = seamsVertexData (drop j seams)"
proof (induction seams arbitrary: j)
  case Nil
  then show ?case by (simp add: seamsVertexData_concat)
next
  case (Cons s seams)
  show ?case
  proof (cases j)
    case 0
    then show ?thesis by simp
  next
    case (Suc k)
    with Cons.prems have "k \<le> length seams" by simp
    then have "drop (10 * k) (seamsVertexData seams) = seamsVertexData (drop k seams)"
      by (rule Cons.IH)
    then show ?thesis
      using Suc by (simp add: seamsVertexData_concat length_endpointFloats_spec)
  qed
qed

lemma seamsVertexData_at:
  assumes "j < length seams"
  shows "drop (10 * j) (seamsVertexData seams)
           = endpointFloats_spec (seams ! j) 0 @ endpointFloats_spec (seams ! j) 1
             @ seamsVertexData (drop (Suc j) seams)"
proof -
  have split: "drop j seams = seams ! j # drop (Suc j) seams"
    using assms by (simp add: Cons_nth_drop_Suc)
  have "drop (10 * j) (seamsVertexData seams) = seamsVertexData (drop j seams)"
    using assms by (simp add: drop_seamsVertexData)
  also have "\<dots> = seamsVertexData (seams ! j # drop (Suc j) seams)"
    by (simp only: split)
  also have "\<dots> = endpointFloats_spec (seams ! j) 0 @ endpointFloats_spec (seams ! j) 1
                     @ seamsVertexData (drop (Suc j) seams)"
    by (simp add: seamsVertexData_concat)
  finally show ?thesis .
qed

lemma endpoint_slice:
  assumes "j < length seams" and "i < 2"
  shows "take 5 (drop (10 * j + 5 * i) (seamsVertexData seams)) = endpointFloats_spec (seams ! j) i"
proof -
  from assms(2) consider "i = 0" | "i = 1"
    by linarith
  then show ?thesis
  proof cases
    case 1
    then show ?thesis
      by (simp add: seamsVertexData_at [OF assms(1)] length_endpointFloats_spec)
  next
    case 2
    have "drop (10 * j + 5) (seamsVertexData seams) = drop 5 (drop (10 * j) (seamsVertexData seams))"
      by (simp add: add.commute)
    then show ?thesis
      using 2 by (simp add: seamsVertexData_at [OF assms(1)] length_endpointFloats_spec)
  qed
qed

lemma vertexData_CreateSeamsVertexBuffer:
  "m_vertexData (CreateSeamsVertexBuffer seams) = seamsVertexData seams"
  by (simp add: CreateSeamsVertexBuffer_def Let_def VertexBuffer_SetData_def)

subsection \<open>The loop runs its body \<open>numIterations_\<close> times\<close>

lemma unat_inc:
  assumes "(i :: uint) < n"
  shows "unat (i + 1) = Suc (unat i)"
proof -
  have "unat i < unat n"
    using assms by (simp add: word_less_nat_alt)
  moreover have "unat n < 2 ^ 32"
    using unsigned_less [of n] by simp
  ultimately show ?thesis
    by (simp add: unat_word_ariths)
qed

lemma pingPongLoop_from:
  "i \<le> n \<Longrightarrow> pingPongLoop c i n v = (pingPongBody c ^^ (unat n - unat i)) v"
proof (induction c i n v rule: pingPongLoop.induct)
  case (1 c i n v)
  show ?case
  proof (cases "i < n")
    case True
    then have next_le: "i + 1 \<le> n" by (rule inc_le)
    have step: "unat (i + 1) = Suc (unat i)" using True by (rule unat_inc)
    have lt: "unat i < unat n" using True by (simp add: word_less_nat_alt)
    have "pingPongLoop c i n v = pingPongLoop c (i + 1) n (pingPongBody c v)"
      using True by (subst pingPongLoop.simps) simp
    also have "\<dots> = (pingPongBody c ^^ (unat n - unat (i + 1))) (pingPongBody c v)"
      using "1.IH" [OF True next_le] .
    also have "\<dots> = (pingPongBody c ^^ Suc (unat n - Suc (unat i))) v"
      by (simp add: step funpow_swap1)
    also have "Suc (unat n - Suc (unat i)) = unat n - unat i"
      using lt by simp
    finally show ?thesis .
  next
    case False
    with "1.prems" have "i = n" by simp
    then show ?thesis by (subst pingPongLoop.simps) simp
  qed
qed

lemma pingPongLoop_funpow: "pingPongLoop c 0 n v = (pingPongBody c ^^ unat n) v"
  using pingPongLoop_from [of 0 n c v] by simp

lemma renderPasses_Suc:
  "renderPasses c ping pong (Suc k) w = Render c (viewAt ping pong k) (renderPasses c ping pong k w)"
  by (simp add: renderPasses_def)

lemma pingPongBody_funpow:
  "(pingPongBody c ^^ k)
      \<lparr>currentTexture = pong, swapTexture = ping, currentView = pingV, swapView = pongV, world = w\<rparr>
   = \<lparr>currentTexture = (if even k then pong else ping),
      swapTexture = (if even k then ping else pong),
      currentView = viewAt pingV pongV k,
      swapView = viewAt pongV pingV k,
      world = renderPasses c pingV pongV k w\<rparr>"
proof (induction k)
  case 0
  show ?case by (simp add: viewAt_def renderPasses_def)
next
  case (Suc k)
  let ?v0 = "\<lparr>currentTexture = pong, swapTexture = ping, currentView = pingV,
              swapView = pongV, world = w\<rparr>"
  have "(pingPongBody c ^^ Suc k) ?v0 = pingPongBody c ((pingPongBody c ^^ k) ?v0)"
    by simp
  also have "\<dots> = pingPongBody c
      \<lparr>currentTexture = (if even k then pong else ping),
       swapTexture = (if even k then ping else pong),
       currentView = viewAt pingV pongV k,
       swapView = viewAt pongV pingV k,
       world = renderPasses c pingV pongV k w\<rparr>"
    by (simp only: Suc)
  also have "\<dots> = \<lparr>currentTexture = (if even (Suc k) then pong else ping),
      swapTexture = (if even (Suc k) then ping else pong),
      currentView = viewAt pingV pongV (Suc k),
      swapView = viewAt pongV pingV (Suc k),
      world = renderPasses c pingV pongV (Suc k) w\<rparr>"
    by (simp add: pingPongBody_def renderPasses_Suc viewAt_def)
  finally show ?case .
qed

subsection \<open>What each step does to the world\<close>

lemma calls_fold_called: "world_calls (fold called cs w) = world_calls w @ cs"
  by (induction cs arbitrary: w) (simp_all add: called_def)

lemma imageData_fold_called: "world_imageData (fold called cs w) = world_imageData w"
  by (induction cs arbitrary: w) (simp_all add: called_def)

lemma textures_fold_called: "world_textures (fold called cs w) = world_textures w"
  by (induction cs arbitrary: w) (simp_all add: called_def)

lemma calls_Render: "world_calls (Render c view w) = world_calls w @ [Call_Render view]"
  by (simp add: Render_def called_def)

lemma imageData_Render: "world_imageData (Render c view w) = world_imageData w"
  by (simp add: Render_def called_def)

lemma calls_renderPasses:
  "world_calls (renderPasses c ping pong k w) = world_calls w @ renderCalls ping pong k"
proof (induction k)
  case 0
  show ?case by (simp add: renderPasses_def renderCalls_def)
next
  case (Suc k)
  then show ?case by (simp add: renderPasses_Suc calls_Render renderCalls_def)
qed

lemma imageData_renderPasses:
  "world_imageData (renderPasses c ping pong k w) = world_imageData w"
proof (induction k)
  case 0
  show ?case by (simp add: renderPasses_def)
next
  case (Suc k)
  then show ?case by (simp add: renderPasses_Suc imageData_Render)
qed

lemma calls_SetData: "world_calls (SetData c t l x y wd ht w) = world_calls w @ [Call_SetData t]"
  by (simp add: SetData_def called_def)

lemma imageData_SetData: "world_imageData (SetData c t l x y wd ht w) = world_imageData w"
  by (simp add: SetData_def called_def)

lemma textures_SetData:
  "textures (world_textures (SetData c t l x y wd ht w))
     = (textures (world_textures w))(t := Texture2D_SetData c l x y wd ht (world_imageData w)
          (textures (world_textures w) t))"
  by (simp add: SetData_def called_def updateTexture_def)

lemma calls_GetData: "world_calls (GetData c t l w) = world_calls w @ [Call_GetData t]"
  by (simp add: GetData_def called_def)

lemma callsMade_append: "world_calls w' = world_calls w @ cs \<Longrightarrow> callsMade w w' = cs"
  by (simp add: callsMade_def)

subsection \<open>The two paths of the driver\<close>

lemma Stitch_not_begun:
  assumes "\<not> Graphics_BeginFrame (m_context sc)"
  shows "StitchLightmapSeams sc settings seamsModel w
           = called Call_LogError (fold called (setupCalls sc settings seamsModel) w)"
  using assms
  by (simp add: StitchLightmapSeams_def Let_def setupCalls_def pingScene_def pongScene_def
      pingView_def pongView_def)

lemma Stitch_begun:
  assumes "Graphics_BeginFrame (m_context sc)"
  shows "StitchLightmapSeams sc settings seamsModel w
           = called Call_EndFrame
               (GetData (m_context sc) (pingPongTarget sc (unat (m_numIterations settings))) 0
                 (renderPasses (m_context sc) (pingView sc settings seamsModel)
                    (pongView sc settings seamsModel) (unat (m_numIterations settings))
                    (SetData (m_context sc) (m_pongTexture sc) 0 0 0
                       (sint (m_lightmapSize sc)) (sint (m_lightmapSize sc))
                       (fold called (setupCalls sc settings seamsModel) w))))"
  using assms
  by (simp add: StitchLightmapSeams_def Let_def setupCalls_def pingScene_def pongScene_def
      pingView_def pongView_def pingPongLoop_funpow pingPongBody_funpow pingPongTarget_def)

lemma callsMade_begun:
  assumes "Graphics_BeginFrame (m_context sc)"
  shows "callsMade w (StitchLightmapSeams sc settings seamsModel w)
           = setupCalls sc settings seamsModel @ [Call_SetData (m_pongTexture sc)]
             @ renderCalls (pingView sc settings seamsModel) (pongView sc settings seamsModel)
                 (unat (m_numIterations settings))
             @ [Call_GetData (pingPongTarget sc (unat (m_numIterations settings))), Call_EndFrame]"
  by (rule callsMade_append)
     (simp add: Stitch_begun [OF assms] called_def calls_GetData calls_renderPasses calls_SetData
        calls_fold_called)

lemma callsMade_not_begun:
  assumes "\<not> Graphics_BeginFrame (m_context sc)"
  shows "callsMade w (StitchLightmapSeams sc settings seamsModel w)
           = setupCalls sc settings seamsModel @ [Call_LogError]"
  by (rule callsMade_append)
     (simp add: Stitch_not_begun [OF assms] called_def calls_fold_called)

subsection \<open>The texture written last\<close>

lemma lastWritten_append:
  "lastWritten (xs @ ys) = (case lastWritten ys of Some t \<Rightarrow> Some t | None \<Rightarrow> lastWritten xs)"
  by (induction xs) (simp_all split: option.splits)

lemma renderCalls_Suc: "renderCalls a b (Suc k) = renderCalls a b k @ [Call_Render (viewAt a b k)]"
  by (simp add: renderCalls_def)

lemma lastWritten_renderCalls:
  "lastWritten (renderCalls a b k)
     = (if k = 0 then None else Some (view_renderTarget (viewAt a b (k - 1))))"
proof (cases k)
  case 0
  then show ?thesis by (simp add: renderCalls_def)
next
  case (Suc j)
  then show ?thesis by (simp add: renderCalls_Suc lastWritten_append)
qed

lemma renderTarget_pingView: "view_renderTarget (pingView sc settings m) = m_pingTexture sc"
  by (simp add: pingView_def CreateStitchingViewAndViewport_def Let_def)

lemma renderTarget_pongView: "view_renderTarget (pongView sc settings m) = m_pongTexture sc"
  by (simp add: pongView_def CreateStitchingViewAndViewport_def Let_def)

lemma scene_pingView: "viewport_scene (view_viewport (pingView sc settings m)) = pingScene sc settings m"
  by (simp add: pingView_def CreateStitchingViewAndViewport_def Let_def)

lemma scene_pongView: "viewport_scene (view_viewport (pongView sc settings m)) = pongScene sc settings m"
  by (simp add: pongView_def CreateStitchingViewAndViewport_def Let_def)

lemma sampledTextures_CreateStitchingScene:
  "sampledTextures (CreateStitchingScene c settings inputTexture m) = [Some inputTexture, Some inputTexture]"
  by (simp add: sampledTextures_def CreateStitchingScene_def Let_def StaticModel_SetMaterial_def
      StaticModel_SetModel_def CreateComponent_StaticModel_def Material_GetTexture_def
      Material_SetRenderOrder_def Material_SetShaderParameter_def Material_SetTexture_def
      Material_SetTechnique_def MakeShared_Material_def)

lemma lastWritten_setupCalls: "lastWritten (setupCalls sc settings m) = None"
  by (simp add: setupCalls_def)

lemma lastWritten_before_readback:
  "lastWritten (setupCalls sc settings m @ [Call_SetData (m_pongTexture sc)]
      @ renderCalls (pingView sc settings m) (pongView sc settings m) k)
   = Some (pingPongTarget sc k)"
proof (cases k)
  case 0
  then show ?thesis
    by (simp add: lastWritten_append lastWritten_renderCalls pingPongTarget_def
        lastWritten_setupCalls)
next
  case (Suc j)
  then show ?thesis
    by (simp add: lastWritten_append lastWritten_renderCalls pingPongTarget_def viewAt_def
        renderTarget_pingView renderTarget_pongView)
qed

lemma filter_isRender_renderCalls: "filter isRender (renderCalls a b k) = renderCalls a b k"
  by (simp add: renderCalls_def filter_map comp_def)

lemma length_renderCalls: "length (renderCalls a b k) = k"
  by (simp add: renderCalls_def)

lemma filter_isRender_setupCalls: "filter isRender (setupCalls sc settings m) = []"
  by (simp add: setupCalls_def)

lemma length_setupCalls: "length (setupCalls sc settings m) = 6"
  by (simp add: setupCalls_def)

lemma no_isCreate_renderCalls: "list_all (\<lambda>c. \<not> isCreate c) (renderCalls a b k)"
  by (simp add: renderCalls_def list_all_iff)

section \<open>The claims\<close>

text \<open>
  C1. With \<open>numIterations_ = 0\<close> and a frame that begins, \<open>StitchLightmapSeams\<close>
  makes, after building its scenes and views, exactly three more calls: one upload of
  the pixel buffer into the pong texture, one readback from that same texture, and the
  frame end; no view is rendered. The pixel buffer afterwards is what the device reads
  back from the pong texture it has just been uploaded to, so on a device that reads
  back exactly what was uploaded the buffer is unchanged.
\<close>

theorem zero_iterations_round_trip:
  assumes "Graphics_BeginFrame (m_context sc)" and "m_numIterations settings = 0"
  shows "callsMade w (StitchLightmapSeams sc settings seamsModel w)
           = setupCalls sc settings seamsModel
             @ [Call_SetData (m_pongTexture sc), Call_GetData (m_pongTexture sc), Call_EndFrame] \<and>
         world_imageData (StitchLightmapSeams sc settings seamsModel w)
           = Texture2D_GetData (m_context sc) 0
               (Texture2D_SetData (m_context sc) 0 0 0
                  (sint (m_lightmapSize sc)) (sint (m_lightmapSize sc)) (world_imageData w)
                  (textures (world_textures w) (m_pongTexture sc)))
               (world_imageData w) \<and>
         ((\<forall>t dest. Texture2D_GetData (m_context sc) 0
               (Texture2D_SetData (m_context sc) 0 0 0
                  (sint (m_lightmapSize sc)) (sint (m_lightmapSize sc)) (world_imageData w) t) dest
             = world_imageData w)
          \<longrightarrow> world_imageData (StitchLightmapSeams sc settings seamsModel w) = world_imageData w)"
proof -
  have calls: "callsMade w (StitchLightmapSeams sc settings seamsModel w)
           = setupCalls sc settings seamsModel
             @ [Call_SetData (m_pongTexture sc), Call_GetData (m_pongTexture sc), Call_EndFrame]"
    using assms(2) by (simp add: callsMade_begun [OF assms(1)] renderCalls_def pingPongTarget_def)
  have data: "world_imageData (StitchLightmapSeams sc settings seamsModel w)
           = Texture2D_GetData (m_context sc) 0
               (Texture2D_SetData (m_context sc) 0 0 0
                  (sint (m_lightmapSize sc)) (sint (m_lightmapSize sc)) (world_imageData w)
                  (textures (world_textures w) (m_pongTexture sc)))
               (world_imageData w)"
    using assms(2)
    by (simp add: Stitch_begun [OF assms(1)] renderPasses_def pingPongTarget_def called_def
        GetData_def textures_SetData imageData_SetData imageData_fold_called textures_fold_called)
  from calls data show ?thesis by simp
qed

theorem zero_iterations_round_trip_witness:
  "callsMade exampleWorld
     (StitchLightmapSeams (exampleContext True) (exampleSettings 0)
        (CreateSeamsModel [exampleSeam]) exampleWorld)
     = setupCalls (exampleContext True) (exampleSettings 0) (CreateSeamsModel [exampleSeam])
       @ [Call_SetData 1, Call_GetData 1, Call_EndFrame] \<and>
   world_imageData
     (StitchLightmapSeams (exampleContext True) (exampleSettings 0)
        (CreateSeamsModel [exampleSeam]) exampleWorld)
     = [10, 20, 30, 40]"
proof -
  have begins: "Graphics_BeginFrame (m_context (exampleContext True))"
    by (simp add: exampleContext_def exampleDevice_def)
  have zero: "m_numIterations (exampleSettings 0) = 0"
    by (simp add: exampleSettings_def)
  have pong: "m_pongTexture (exampleContext True) = 1"
    by (simp add: exampleContext_def)
  have device: "Texture2D_GetData (m_context (exampleContext True)) 0
                  (Texture2D_SetData (m_context (exampleContext True)) 0 0 0 a b pixels t) dest
                = pixels" for a b pixels t dest
    by (simp add: exampleContext_def exampleDevice_def)
  have buffer: "world_imageData exampleWorld = [10, 20, 30, 40]"
    by (simp add: exampleWorld_def)
  from zero_iterations_round_trip
         [OF begins zero, of exampleWorld "CreateSeamsModel [exampleSeam]"]
  show ?thesis
    by (simp add: pong device buffer)
qed

text \<open>
  C2. When the frame begins, the loop of \<open>StitchLightmapSeams\<close> runs its body (one
  render, then the two swaps) exactly \<open>numIterations_\<close> times, so exactly that many
  render calls are made. Of the calls made before the readback, the last one that
  writes a texture writes the pong texture when \<open>numIterations_\<close> is even and the ping
  texture when it is odd, and the one readback, which is followed only by the frame
  end, reads that texture.
\<close>

theorem ping_pong_last_written:
  assumes "Graphics_BeginFrame (m_context sc)"
  shows "pingPongLoop (m_context sc) 0 (m_numIterations settings) v
           = (pingPongBody (m_context sc) ^^ unat (m_numIterations settings)) v \<and>
         length (filter isRender (callsMade w (StitchLightmapSeams sc settings seamsModel w)))
           = unat (m_numIterations settings) \<and>
         callsMade w (StitchLightmapSeams sc settings seamsModel w)
           = (setupCalls sc settings seamsModel @ [Call_SetData (m_pongTexture sc)]
                @ renderCalls (pingView sc settings seamsModel) (pongView sc settings seamsModel)
                    (unat (m_numIterations settings)))
             @ [Call_GetData (if even (unat (m_numIterations settings))
                              then m_pongTexture sc else m_pingTexture sc),
                Call_EndFrame] \<and>
         lastWritten
           (setupCalls sc settings seamsModel @ [Call_SetData (m_pongTexture sc)]
              @ renderCalls (pingView sc settings seamsModel) (pongView sc settings seamsModel)
                  (unat (m_numIterations settings)))
           = Some (if even (unat (m_numIterations settings))
                   then m_pongTexture sc else m_pingTexture sc)"
  using lastWritten_before_readback [of sc settings seamsModel "unat (m_numIterations settings)"]
  by (simp add: pingPongLoop_funpow callsMade_begun [OF assms] pingPongTarget_def
      filter_isRender_renderCalls filter_isRender_setupCalls length_renderCalls)

theorem ping_pong_last_written_witness:
  "length (filter isRender
     (callsMade exampleWorld
        (StitchLightmapSeams (exampleContext True) (exampleSettings 3)
           (CreateSeamsModel [exampleSeam]) exampleWorld))) = 3 \<and>
   drop 10
     (callsMade exampleWorld
        (StitchLightmapSeams (exampleContext True) (exampleSettings 3)
           (CreateSeamsModel [exampleSeam]) exampleWorld))
     = [Call_GetData 0, Call_EndFrame] \<and>
   lastWritten (take 10
     (callsMade exampleWorld
        (StitchLightmapSeams (exampleContext True) (exampleSettings 3)
           (CreateSeamsModel [exampleSeam]) exampleWorld)))
     = Some 0"
proof -
  have begins: "Graphics_BeginFrame (m_context (exampleContext True))"
    by (simp add: exampleContext_def exampleDevice_def)
  have three: "unat (m_numIterations (exampleSettings 3)) = 3"
    by (simp add: exampleSettings_def)
  have ptrs: "m_pingTexture (exampleContext True) = 0" "m_pongTexture (exampleContext True) = 1"
    by (simp_all add: exampleContext_def)
  from ping_pong_last_written
         [OF begins, of "exampleSettings 3" _ exampleWorld "CreateSeamsModel [exampleSeam]",
          THEN conjunct2]
  show ?thesis
    by (simp add: three ptrs length_setupCalls length_renderCalls filter_isRender_setupCalls
        filter_isRender_renderCalls)
qed

text \<open>
  C3. When \<open>BeginFrame\<close> fails, \<open>StitchLightmapSeams\<close> logs an error and returns:
  the pixel buffer and the textures are as they were, and after the calls that build
  the scenes and views and the failed \<open>BeginFrame\<close> the only call is the error log;
  there is no upload, no render, no readback and no frame end.
\<close>

theorem frame_not_begun_leaves_buffer:
  assumes "\<not> Graphics_BeginFrame (m_context sc)"
  shows "world_imageData (StitchLightmapSeams sc settings seamsModel w) = world_imageData w \<and>
         world_textures (StitchLightmapSeams sc settings seamsModel w) = world_textures w \<and>
         callsMade w (StitchLightmapSeams sc settings seamsModel w)
           = setupCalls sc settings seamsModel @ [Call_LogError] \<and>
         list_all (\<lambda>c. \<not> isSetData c \<and> \<not> isRender c \<and> \<not> isGetData c \<and> c \<noteq> Call_EndFrame)
           (callsMade w (StitchLightmapSeams sc settings seamsModel w))"
proof -
  have "list_all (\<lambda>c. \<not> isSetData c \<and> \<not> isRender c \<and> \<not> isGetData c \<and> c \<noteq> Call_EndFrame)
          (setupCalls sc settings seamsModel @ [Call_LogError])"
    by (simp add: setupCalls_def)
  then show ?thesis
    by (simp add: callsMade_not_begun [OF assms])
       (simp add: Stitch_not_begun [OF assms] called_def imageData_fold_called textures_fold_called)
qed

theorem frame_not_begun_leaves_buffer_witness:
  "world_imageData
     (StitchLightmapSeams (exampleContext False) (exampleSettings 3)
        (CreateSeamsModel [exampleSeam]) exampleWorld)
     = [10, 20, 30, 40] \<and>
   length (callsMade exampleWorld
     (StitchLightmapSeams (exampleContext False) (exampleSettings 3)
        (CreateSeamsModel [exampleSeam]) exampleWorld)) = 7 \<and>
   last (callsMade exampleWorld
     (StitchLightmapSeams (exampleContext False) (exampleSettings 3)
        (CreateSeamsModel [exampleSeam]) exampleWorld)) = Call_LogError"
proof -
  have fails: "\<not> Graphics_BeginFrame (m_context (exampleContext False))"
    by (simp add: exampleContext_def exampleDevice_def)
  have buffer: "world_imageData exampleWorld = [10, 20, 30, 40]"
    by (simp add: exampleWorld_def)
  from frame_not_begun_leaves_buffer
         [OF fails, of "exampleSettings 3" "CreateSeamsModel [exampleSeam]" exampleWorld]
  show ?thesis
    by (simp add: buffer length_setupCalls)
qed

text \<open>
  C4. \<open>StitchLightmapSeams\<close> first loads the render path, builds the ping scene, the
  pong scene, the ping view and the pong view, and calls \<open>BeginFrame\<close>; it builds no
  scene or view after that. Both materials of the ping scene sample the pong texture
  and the ping view renders the ping scene into the ping texture; both materials of
  the pong scene sample the ping texture and the pong view renders the pong scene into
  the pong texture. When the frame begins the next call uploads the pixel buffer to the
  pong texture, the first pass, if there is one, renders the ping view, and with one
  iteration the ping texture ends as what the device renders through the ping view from
  the textures in which pong holds the uploaded buffer.
\<close>

theorem scenes_and_views_wiring:
  "take 6 (callsMade w (StitchLightmapSeams sc settings seamsModel w))
     = [Call_LoadRenderPath (m_renderPathName settings),
        Call_CreateStitchingScene (pingScene sc settings seamsModel),
        Call_CreateStitchingScene (pongScene sc settings seamsModel),
        Call_CreateStitchingViewAndViewport (pingView sc settings seamsModel),
        Call_CreateStitchingViewAndViewport (pongView sc settings seamsModel),
        Call_BeginFrame] \<and>
   list_all (\<lambda>c. \<not> isCreate c) (drop 6 (callsMade w (StitchLightmapSeams sc settings seamsModel w))) \<and>
   sampledTextures (pingScene sc settings seamsModel)
     = [Some (m_pongTexture sc), Some (m_pongTexture sc)] \<and>
   viewport_scene (view_viewport (pingView sc settings seamsModel)) = pingScene sc settings seamsModel \<and>
   view_renderTarget (pingView sc settings seamsModel) = m_pingTexture sc \<and>
   sampledTextures (pongScene sc settings seamsModel)
     = [Some (m_pingTexture sc), Some (m_pingTexture sc)] \<and>
   viewport_scene (view_viewport (pongView sc settings seamsModel)) = pongScene sc settings seamsModel \<and>
   view_renderTarget (pongView sc settings seamsModel) = m_pongTexture sc \<and>
   (Graphics_BeginFrame (m_context sc) \<longrightarrow>
      callsMade w (StitchLightmapSeams sc settings seamsModel w) ! 6
        = Call_SetData (m_pongTexture sc) \<and>
      (m_numIterations settings \<noteq> 0 \<longrightarrow>
         callsMade w (StitchLightmapSeams sc settings seamsModel w) ! 7
           = Call_Render (pingView sc settings seamsModel)) \<and>
      (m_numIterations settings = 1 \<longrightarrow>
         textures (world_textures (StitchLightmapSeams sc settings seamsModel w)) (m_pingTexture sc)
           = View_Render (m_context sc) (pingView sc settings seamsModel)
               ((textures (world_textures w))
                  (m_pongTexture sc :=
                     Texture2D_SetData (m_context sc) 0 0 0
                       (sint (m_lightmapSize sc)) (sint (m_lightmapSize sc)) (world_imageData w)
                       (textures (world_textures w) (m_pongTexture sc))))))"
proof -
  let ?r = "StitchLightmapSeams sc settings seamsModel w"
  let ?n = "unat (m_numIterations settings)"
  have start: "take 6 (callsMade w ?r) = setupCalls sc settings seamsModel"
    by (cases "Graphics_BeginFrame (m_context sc)")
       (simp_all add: callsMade_begun callsMade_not_begun length_setupCalls)
  have once: "list_all (\<lambda>c. \<not> isCreate c) (drop 6 (callsMade w ?r))"
    by (cases "Graphics_BeginFrame (m_context sc)")
       (simp_all add: callsMade_begun callsMade_not_begun length_setupCalls no_isCreate_renderCalls)
  have wiring:
    "sampledTextures (pingScene sc settings seamsModel)
       = [Some (m_pongTexture sc), Some (m_pongTexture sc)]"
    "sampledTextures (pongScene sc settings seamsModel)
       = [Some (m_pingTexture sc), Some (m_pingTexture sc)]"
    by (simp_all add: pingScene_def pongScene_def sampledTextures_CreateStitchingScene)
  have upload: "callsMade w ?r ! 6 = Call_SetData (m_pongTexture sc)"
    if "Graphics_BeginFrame (m_context sc)"
    by (simp add: callsMade_begun [OF that] nth_append length_setupCalls)
  have first: "callsMade w ?r ! 7 = Call_Render (pingView sc settings seamsModel)"
    if "Graphics_BeginFrame (m_context sc)" and "m_numIterations settings \<noteq> 0"
  proof -
    from that(2) have "?n \<noteq> 0"
      by (simp add: unat_eq_0)
    then obtain k where k: "?n = Suc k"
      by (cases ?n) simp_all
    have "renderCalls (pingView sc settings seamsModel) (pongView sc settings seamsModel) (Suc k) ! 0
            = Call_Render (pingView sc settings seamsModel)"
      by (simp add: renderCalls_def upt_rec viewAt_def)
    then show ?thesis
      by (simp add: callsMade_begun [OF that(1)] nth_append length_setupCalls length_renderCalls k)
  qed
  have one: "textures (world_textures ?r) (m_pingTexture sc)
           = View_Render (m_context sc) (pingView sc settings seamsModel)
               ((textures (world_textures w))
                  (m_pongTexture sc :=
                     Texture2D_SetData (m_context sc) 0 0 0
                       (sint (m_lightmapSize sc)) (sint (m_lightmapSize sc)) (world_imageData w)
                       (textures (world_textures w) (m_pongTexture sc))))"
    if "Graphics_BeginFrame (m_context sc)" and "m_numIterations settings = 1"
  proof -
    have "renderPasses (m_context sc) (pingView sc settings seamsModel)
            (pongView sc settings seamsModel) (Suc 0) w'
          = Render (m_context sc) (pingView sc settings seamsModel) w'" for w'
      by (simp add: renderPasses_def viewAt_def)
    then show ?thesis
      using that(2)
      by (simp add: Stitch_begun [OF that(1)] called_def GetData_def Render_def updateTexture_def
          textures_SetData imageData_fold_called textures_fold_called renderTarget_pingView)
  qed
  from start once wiring upload first one show ?thesis
    by (simp add: setupCalls_def scene_pingView scene_pongView renderTarget_pingView
        renderTarget_pongView)
qed

theorem scenes_and_views_wiring_witness:
  "callsMade exampleWorld
     (StitchLightmapSeams (exampleContext True) (exampleSettings 1)
        (CreateSeamsModel [exampleSeam]) exampleWorld) ! 6 = Call_SetData 1 \<and>
   callsMade exampleWorld
     (StitchLightmapSeams (exampleContext True) (exampleSettings 1)
        (CreateSeamsModel [exampleSeam]) exampleWorld) ! 7
     = Call_Render (pingView (exampleContext True) (exampleSettings 1) (CreateSeamsModel [exampleSeam])) \<and>
   m_data (textures (world_textures
     (StitchLightmapSeams (exampleContext True) (exampleSettings 1)
        (CreateSeamsModel [exampleSeam]) exampleWorld)) 0) = [11, 21, 31, 41]"
proof -
  let ?sc = "exampleContext True"
  let ?m = "CreateSeamsModel [exampleSeam]"
  have begins: "Graphics_BeginFrame (m_context ?sc)"
    by (simp add: exampleContext_def exampleDevice_def)
  have one: "m_numIterations (exampleSettings 1) = 1"
    by (simp add: exampleSettings_def)
  have ptrs: "m_pingTexture ?sc = 0" "m_pongTexture ?sc = 1"
    by (simp_all add: exampleContext_def)
  have source: "hd (sampledTextures (viewport_scene (view_viewport (pingView ?sc (exampleSettings 1) ?m))))
                  = Some 1"
    by (simp add: scene_pingView pingScene_def sampledTextures_CreateStitchingScene ptrs)
  have pass: "m_data (View_Render (m_context ?sc) (pingView ?sc (exampleSettings 1) ?m) ts)
                = map Suc (m_data (ts 1))" for ts
    using source by (simp add: exampleContext_def exampleDevice_def)
  have uploaded: "m_data (Texture2D_SetData (m_context ?sc) 0 0 0 a b (world_imageData exampleWorld) t)
                = [10, 20, 30, 40]" for a b t
    by (simp add: exampleContext_def exampleDevice_def exampleWorld_def)
  from scenes_and_views_wiring [of exampleWorld ?sc "exampleSettings 1" ?m]
  show ?thesis
    by (simp add: begins one ptrs pass uploaded)
qed

text \<open>
  C5. For a seam vector of any size \<open>k\<close>, zero included, the model built by
  \<open>CreateSeamsModel\<close> has one vertex buffer, of \<open>2k\<close> vertices with as many floats as
  \<open>2k\<close> vertices of its layout take, and one geometry at one level of detail, which
  draws that vertex buffer as a line list of \<open>2k\<close> vertices from vertex 0, with no
  index buffer and no indices.
\<close>

theorem seams_model_counts:
  "m_modelVertexBuffers (CreateSeamsModel seams) = [CreateSeamsVertexBuffer seams] \<and>
   m_vertexCount (CreateSeamsVertexBuffer seams) = 2 * length seams \<and>
   length (m_vertexData (CreateSeamsVertexBuffer seams))
     = 2 * length seams * vertexFloats (m_elements (CreateSeamsVertexBuffer seams)) \<and>
   m_geometries (CreateSeamsModel seams) =
     [[Some \<lparr>m_geometryVertexBuffers = [Some (CreateSeamsVertexBuffer seams)],
              m_indexBuffer = None, m_primitiveType = LINE_LIST,
              m_indexStart = 0, m_indexCount = 0, m_vertexStart = 0,
              m_drawVertexCount = 2 * length seams\<rparr>]]"
  by (simp add: CreateSeamsModel_def CreateSeamsVertexBuffer_def Let_def
      MakeShared_Model_def Model_SetBoundingBox_def Model_SetNumGeometries_def
      Model_SetNumGeometryLodLevels_def Model_SetVertexBuffers_def Model_SetGeometry_def
      MakeShared_Geometry_def Geometry_SetNumVertexBuffers_def Geometry_SetVertexBuffer_def
      Geometry_SetDrawRange_def resize_def MakeShared_VertexBuffer_def
      VertexBuffer_SetShadowed_def VertexBuffer_SetSize_def VertexBuffer_SetData_def
      length_seamsVertexData vertexFloats_def vertexElements_def)

theorem seams_model_counts_empty:
  "m_modelVertexBuffers (CreateSeamsModel []) = [CreateSeamsVertexBuffer []] \<and>
   m_vertexCount (CreateSeamsVertexBuffer []) = 0 \<and>
   m_vertexData (CreateSeamsVertexBuffer []) = [] \<and>
   m_geometries (CreateSeamsModel []) =
     [[Some \<lparr>m_geometryVertexBuffers = [Some (CreateSeamsVertexBuffer [])],
              m_indexBuffer = None, m_primitiveType = LINE_LIST,
              m_indexStart = 0, m_indexCount = 0, m_vertexStart = 0,
              m_drawVertexCount = 0\<rparr>]]"
  using seams_model_counts [of "[]"] by simp

text \<open>
  C6. The vertex data built by \<open>CreateSeamsVertexBuffer\<close> is, seam after seam in the
  order of the vector, the five floats of endpoint 0 followed by the five floats of
  endpoint 1 and nothing else; the five floats of an endpoint are its own-side x, the
  constant 0, 1 minus its own-side y, the other-side x and the other-side y.
\<close>

theorem seams_vertex_layout:
  "m_vertexData (CreateSeamsVertexBuffer seams)
     = concat (map (\<lambda>seam. endpointFloats_spec seam 0 @ endpointFloats_spec seam 1) seams) \<and>
   (\<forall>j < length seams. \<forall>i < 2.
      take 5 (drop (10 * j + 5 * i) (m_vertexData (CreateSeamsVertexBuffer seams)))
        = [m_x (at2 (m_positions (seams ! j)) i), 0, 1 - m_y (at2 (m_positions (seams ! j)) i),
           m_x (at2 (m_otherPositions (seams ! j)) i), m_y (at2 (m_otherPositions (seams ! j)) i)])"
proof -
  have whole: "m_vertexData (CreateSeamsVertexBuffer seams)
     = concat (map (\<lambda>seam. endpointFloats_spec seam 0 @ endpointFloats_spec seam 1) seams)"
    by (simp add: vertexData_CreateSeamsVertexBuffer seamsVertexData_concat)
  have "take 5 (drop (10 * j + 5 * i) (seamsVertexData seams))
          = [m_x (at2 (m_positions (seams ! j)) i), 0, 1 - m_y (at2 (m_positions (seams ! j)) i),
             m_x (at2 (m_otherPositions (seams ! j)) i), m_y (at2 (m_otherPositions (seams ! j)) i)]"
    if "j < length seams" and "i < 2" for j i
    using endpoint_slice [OF that] by (simp add: endpointFloats_spec_def)
  then have slices: "\<forall>j < length seams. \<forall>i < 2.
      take 5 (drop (10 * j + 5 * i) (m_vertexData (CreateSeamsVertexBuffer seams)))
        = [m_x (at2 (m_positions (seams ! j)) i), 0, 1 - m_y (at2 (m_positions (seams ! j)) i),
           m_x (at2 (m_otherPositions (seams ! j)) i), m_y (at2 (m_otherPositions (seams ! j)) i)]"
    by (simp only: vertexData_CreateSeamsVertexBuffer) blast
  from whole slices show ?thesis
    by (rule conjI)
qed

theorem seams_vertex_layout_witness:
  "take 5 (drop 15 (m_vertexData (CreateSeamsVertexBuffer
      [exampleSeam,
       \<lparr>m_positions = (\<lparr>m_x = 1 / 4, m_y = 1 / 2\<rparr>, \<lparr>m_x = 1 / 4, m_y = 3 / 4\<rparr>),
        m_otherPositions = (\<lparr>m_x = 3 / 4, m_y = 1 / 2\<rparr>, \<lparr>m_x = 3 / 4, m_y = 1\<rparr>)\<rparr>])))
     = [1 / 4, 0, 1 / 4, 3 / 4, 1]"
  using seams_vertex_layout
    [of "[exampleSeam,
       \<lparr>m_positions = (\<lparr>m_x = 1 / 4, m_y = 1 / 2\<rparr>, \<lparr>m_x = 1 / 4, m_y = 3 / 4\<rparr>),
        m_otherPositions = (\<lparr>m_x = 3 / 4, m_y = 1 / 2\<rparr>, \<lparr>m_x = 3 / 4, m_y = 1\<rparr>)\<rparr>]",
     THEN conjunct2, rule_format, of 1 1]
  by (simp add: at2_def)



text \<open>
  C8, as the code has it. For a channel count of 1, 2 or 4 \<open>InitializeStitchingContext\<close>
  returns a context with two different textures, each set to one mip level, the format
  resolved from the channel count, render-target usage, and width and height both
  \<open>static_cast<int>(lightmapSize)\<close>; so the two always agree in dimensions and format.
  The dimensions are \<open>lightmapSize\<close> by \<open>lightmapSize\<close> when \<open>lightmapSize\<close> is below
  \<open>2^31\<close>.
\<close>

theorem stitching_context_textures:
  assumes "numChannels \<in> {1, 2, 4}"
  shows "\<exists>c h' textureFormat.
      InitializeStitchingContext ndebug gfx h context lightmapSize numChannels = Inr (c, h') \<and>
      GetStitchTextureFormat ndebug gfx numChannels = Inr textureFormat \<and>
      m_context c = context \<and> m_lightmapSize c = lightmapSize \<and>
      m_pingTexture c \<noteq> m_pongTexture c \<and>
      list_all (\<lambda>t. m_requestedLevels (textures h' t) = 1 \<and>
                   m_width (textures h' t) = sint lightmapSize \<and>
                   m_height (textures h' t) = sint lightmapSize \<and>
                   m_format (textures h' t) = textureFormat \<and>
                   m_usage (textures h' t) = TEXTURE_RENDERTARGET)
        [m_pingTexture c, m_pongTexture c] \<and>
      (unat lightmapSize < 2 ^ 31 \<longrightarrow>
         list_all (\<lambda>t. m_width (textures h' t) = int (unat lightmapSize) \<and>
                      m_height (textures h' t) = int (unat lightmapSize))
           [m_pingTexture c, m_pongTexture c])"
proof -
  from assms obtain textureFormat
    where format: "GetStitchTextureFormat ndebug gfx numChannels = Inr textureFormat"
    by (auto simp: GetStitchTextureFormat_def)
  from InitializeStitchingContext_Inr [OF format, of h "context" lightmapSize]
  obtain c h' where
    "InitializeStitchingContext ndebug gfx h context lightmapSize numChannels = Inr (c, h')"
    "m_context c = context" "m_lightmapSize c = lightmapSize"
    "m_pingTexture c \<noteq> m_pongTexture c"
    "list_all (\<lambda>t. m_requestedLevels (textures h' t) = 1 \<and>
                   m_width (textures h' t) = sint lightmapSize \<and>
                   m_height (textures h' t) = sint lightmapSize \<and>
                   m_format (textures h' t) = textureFormat \<and>
                   m_usage (textures h' t) = TEXTURE_RENDERTARGET)
        [m_pingTexture c, m_pongTexture c]"
    by blast
  with format show ?thesis
    by (auto simp: sint_below_INT_MAX)
qed

theorem stitching_context_textures_witness:
  "\<exists>c h'. InitializeStitchingContext False glFormats emptyStore () 1024 4 = Inr (c, h') \<and>
      m_pingTexture c \<noteq> m_pongTexture c \<and>
      m_width (textures h' (m_pingTexture c)) = 1024 \<and>
      m_height (textures h' (m_pingTexture c)) = 1024 \<and>
      m_format (textures h' (m_pingTexture c)) = 0x8814 \<and>
      m_width (textures h' (m_pongTexture c)) = 1024 \<and>
      m_height (textures h' (m_pongTexture c)) = 1024 \<and>
      m_format (textures h' (m_pongTexture c)) = 0x8814"
  using stitching_context_textures [of 4 False glFormats emptyStore "()" 1024]
  by (auto simp: GetStitchTextureFormat_def glFormats_def)

text \<open>
  C8 as stated fails for a lightmap size of \<open>2^31\<close>: the context is returned, and the
  width its ping texture is set to is \<open>-2147483648\<close>, not \<open>2147483648\<close>.
\<close>

theorem context_size_above_INT_MAX:
  "\<not> isl (InitializeStitchingContext False glFormats emptyStore () 0x80000000 4) \<and>
   m_lightmapSize (fst (projr (InitializeStitchingContext False glFormats emptyStore () 0x80000000 4)))
     = 0x80000000 \<and>
   m_width
     (textures (snd (projr (InitializeStitchingContext False glFormats emptyStore () 0x80000000 4)))
        (m_pingTexture
           (fst (projr (InitializeStitchingContext False glFormats emptyStore () 0x80000000 4)))))
     = - 2147483648 \<and>
   int (unat (0x80000000 :: uint)) = 2147483648"
  by (simp add: InitializeStitchingContext_def GetStitchTextureFormat_def glFormats_def
      MakeShared_Texture2D_def emptyStore_def initTexture_textures Texture2D_SetSize_def
      Texture2D_SetNumLevels_def)

text \<open>
  C10. In a build with assertions compiled out, \<open>GetStitchTextureFormat\<close> returns 0
  for every channel count other than 1, 2 and 4, and \<open>InitializeStitchingContext\<close>
  then returns a context both of whose textures were given format 0.
\<close>

theorem release_build_format_zero:
  assumes "numChannels \<notin> {1, 2, 4}"
  shows "GetStitchTextureFormat True gfx numChannels = Inr 0 \<and>
         (\<exists>c h'. InitializeStitchingContext True gfx h context lightmapSize numChannels = Inr (c, h') \<and>
            m_format (textures h' (m_pingTexture c)) = 0 \<and>
            m_format (textures h' (m_pongTexture c)) = 0)"
proof -
  from assms have format: "GetStitchTextureFormat True gfx numChannels = Inr 0"
    by (simp add: GetStitchTextureFormat_def)
  from InitializeStitchingContext_Inr [OF format, of h "context" lightmapSize] format
  show ?thesis
    by auto
qed

theorem release_build_format_zero_witness:
  "GetStitchTextureFormat True glFormats 3 = Inr 0 \<and>
   (\<exists>c h'. InitializeStitchingContext True glFormats emptyStore () 1024 3 = Inr (c, h') \<and>
      m_format (textures h' (m_pingTexture c)) = 0 \<and>
      m_format (textures h' (m_pongTexture c)) = 0)"
  using release_build_format_zero [of 3 glFormats emptyStore "()" 1024]
  by simp

end
